theory Spec2Isabelle
  imports Main "HOL-Library.Option_ord" "HOL-Library.Multiset"
begin

section \<open>Data model\<close>

text \<open>
  A timestamp is an instant on the time line. The byte blob of a pickled job is a list of
  characters (a character of HOL is a byte).
\<close>

type_synonym time = int
type_synonym bytes = string

subsection \<open>The scheduler's job object\<close>

text \<open>
  \<^verbatim>\<open>apscheduler.job.Job\<close>, as far as the store reads it: its id, the class of its
  trigger, its next run time (\<open>None\<close> for a paused job) and the rest of what
  \<^verbatim>\<open>__getstate__\<close> returns (the callable's reference and its arguments), kept opaque.
  The attributes \<^verbatim>\<open>_scheduler\<close> and \<^verbatim>\<open>_jobstore_alias\<close>, which
  \<^verbatim>\<open>_reconstitute_job\<close> sets after unpickling, are no part of the pickled state and
  are left out.
\<close>

datatype trigger = DateTrigger | IntervalTrigger | CronTrigger | OtherTrigger

record job =
  job_id :: string
  job_trigger :: trigger
  job_next_run_time :: "time option"
  job_func :: string

subsection \<open>The two tables (models.py)\<close>

text \<open>
  \<^verbatim>\<open>DjangoJob\<close>: \<^verbatim>\<open>id\<close> (primary key), \<^verbatim>\<open>next_run_time\<close> (nullable),
  \<^verbatim>\<open>job_state\<close> and \<^verbatim>\<open>trigger\<close>. The fields carry the prefix \<open>dj_\<close>
  because \<open>id\<close> is a constant of HOL.
\<close>

record DjangoJob =
  dj_id :: string
  dj_next_run_time :: "time option"
  dj_job_state :: bytes
  dj_trigger :: string

text \<open>
  \<^verbatim>\<open>DjangoJobExecution\<close>. Its field \<^verbatim>\<open>job\<close> is a \<^verbatim>\<open>CharField\<close>: a plain string
  column that holds a job id, with no foreign key to \<^verbatim>\<open>DjangoJob\<close> and no
  \<^verbatim>\<open>on_delete\<close>. \<^verbatim>\<open>run_time\<close> is not nullable; \<^verbatim>\<open>finished\<close>,
  \<^verbatim>\<open>exception\<close> and \<^verbatim>\<open>traceback\<close> are.
\<close>

record DjangoJobExecution =
  ex_id :: nat
  ex_job :: string
  ex_status :: string
  ex_run_time :: time
  ex_type :: string
  ex_finished :: "time option"
  ex_exception :: "string option"
  ex_traceback :: "string option"
  ex_created_at :: time
  ex_updated_at :: time

definition START :: string where "START = ''Job Added''"
definition SENT :: string where "SENT = ''Started execution''"
definition SUCCESS :: string where "SUCCESS = ''Executed''"
definition MISSED :: string where "MISSED = ''Missed!''"
definition MAX_INSTANCES :: string where "MAX_INSTANCES = ''Max instances!''"
definition ERROR :: string where "ERROR = ''Error!''"

subsection \<open>Exceptions and log records\<close>

datatype error =
    DjangoJob_DoesNotExist
  | DjangoJob_MultipleObjectsReturned
  | DjangoJobExecution_DoesNotExist
  | DjangoJobExecution_MultipleObjectsReturned
  | IntegrityError
  | ConflictingIdError string
  | JobLookupError string
  | NotImplementedError
  | RestoreError

text \<open>
  The three messages the module logs, each with what it interpolates:
  \<^item> \<open>JobNoLongerExists i\<close>: \<^verbatim>\<open>logger.warning(f"Job '{i}' no longer exists! Skipping logging of job execution...")\<close>
  \<^item> \<open>UnableToRestore i\<close>: \<^verbatim>\<open>self._logger.exception(f"Unable to restore job '{i}'. Removing it...")\<close>
  \<^item> \<open>RemovingFailedJobs s\<close>: \<^verbatim>\<open>logger.warning(f"Removing failed jobs: {s}")\<close>
\<close>

datatype log_record =
    JobNoLongerExists string
  | UnableToRestore string
  | RemovingFailedJobs "string set"

subsection \<open>The state: both tables, the key sequence of the ledger, the log\<close>

record world =
  jobs :: "DjangoJob list"
  executions :: "DjangoJobExecution list"
  next_execution_id :: nat
  log :: "log_record list"

definition log_append :: "log_record list \<Rightarrow> world \<Rightarrow> world" where
  "log_append rs w = w\<lparr>log := log w @ rs\<rparr>"

section \<open>The queries of the ORM that the store uses\<close>

text \<open>
  \<^verbatim>\<open>Model.objects.get(...)\<close>: the one row that matches; \<^verbatim>\<open>DoesNotExist\<close> when none
  does, \<^verbatim>\<open>MultipleObjectsReturned\<close> when several do.
\<close>

datatype 'r got = Got 'r | DoesNotExist | MultipleObjectsReturned

definition objects_get :: "('r \<Rightarrow> bool) \<Rightarrow> 'r list \<Rightarrow> 'r got" where
  "objects_get p rows =
     (case filter p rows of
        [] \<Rightarrow> DoesNotExist
      | [r] \<Rightarrow> Got r
      | r # r' # rs \<Rightarrow> MultipleObjectsReturned)"

text \<open>
  \<^verbatim>\<open>Meta.ordering = ("next_run_time",)\<close>: a query over \<^verbatim>\<open>DjangoJob\<close> is ordered by
  \<^verbatim>\<open>next_run_time\<close>, ascending. The null value sorts first (the order on \<open>option\<close>
  has \<open>None\<close> least), and rows with equal keys keep their insertion order.
\<close>

definition order_by_next_run_time :: "DjangoJob list \<Rightarrow> DjangoJob list" where
  "order_by_next_run_time rows = sort_key dj_next_run_time rows"

text \<open>\<^verbatim>\<open>next_run_time__lte=dt\<close>: a null column never satisfies the comparison.\<close>

definition next_run_time__lte :: "time \<Rightarrow> DjangoJob \<Rightarrow> bool" where
  "next_run_time__lte dt r =
     (case dj_next_run_time r of None \<Rightarrow> False | Some t \<Rightarrow> t \<le> dt)"

definition next_run_time__isnull_False :: "DjangoJob \<Rightarrow> bool" where
  "next_run_time__isnull_False r = (dj_next_run_time r \<noteq> None)"

text \<open>\<^verbatim>\<open>QuerySet.earliest("next_run_time")\<close>: the first row in ascending order.\<close>

definition earliest :: "DjangoJob list \<Rightarrow> DjangoJob got" where
  "earliest rows =
     (case order_by_next_run_time rows of [] \<Rightarrow> DoesNotExist | r # rs \<Rightarrow> Got r)"

text \<open>
  \<^verbatim>\<open>instance.save()\<close> of a row that was read from the table: the row with that
  primary key is replaced; \<^verbatim>\<open>auto_now\<close> stamps \<^verbatim>\<open>updated_at\<close>.
\<close>

definition save_execution :: "time \<Rightarrow> DjangoJobExecution \<Rightarrow> world \<Rightarrow> world" where
  "save_execution now e w =
     w\<lparr>executions :=
         map (\<lambda>r. if ex_id r = ex_id e then e\<lparr>ex_updated_at := now\<rparr> else r) (executions w)\<rparr>"

definition save_job :: "DjangoJob \<Rightarrow> world \<Rightarrow> world" where
  "save_job j w =
     w\<lparr>jobs := map (\<lambda>r. if dj_id r = dj_id j then j else r) (jobs w)\<rparr>"

text \<open>
  \<^verbatim>\<open>DjangoJobExecution.objects.create(job, status, type, run_time)\<close>: a new row with
  the next key of the sequence; the nullable fields are null, both audit stamps are set.
\<close>

definition create_execution ::
  "time \<Rightarrow> string \<Rightarrow> string \<Rightarrow> string \<Rightarrow> time \<Rightarrow> world \<Rightarrow> DjangoJobExecution \<times> world" where
  "create_execution now j st ty rt w =
     (let e = \<lparr>ex_id = next_execution_id w, ex_job = j, ex_status = st, ex_run_time = rt,
                ex_type = ty, ex_finished = None, ex_exception = None, ex_traceback = None,
                ex_created_at = now, ex_updated_at = now\<rparr>
      in (e, w\<lparr>executions := executions w @ [e],
               next_execution_id := Suc (next_execution_id w)\<rparr>))"

section \<open>util.py\<close>

text \<open>
  Modelled from the spec: \<^verbatim>\<open>rest_apscheduler/util.py\<close> is imported by jobstore.py and is
  not among the sources. The spec (section 1) names the time zone conversion utilities as
  external collaborators; they change how an instant is written (naive or aware), never
  the instant. On instants both are the identity.
\<close>

definition get_django_internal_datetime :: "'t \<Rightarrow> 't" where
  "get_django_internal_datetime dt = dt"

definition get_apscheduler_datetime :: "'t \<Rightarrow> 't" where
  "get_apscheduler_datetime dt = dt"

section \<open>DjangoJobStore (jobstore.py)\<close>

text \<open>
  The pickling is the caller's contract, so the two directions are parameters:
  \<open>dumps j\<close> stands for \<^verbatim>\<open>pickle.dumps(job.__getstate__(), self.pickle_protocol)\<close> and
  \<open>loads b\<close> for \<^verbatim>\<open>pickle.loads(b)\<close> followed by \<^verbatim>\<open>Job.__setstate__\<close>, with
  \<open>None\<close> when either raises.
\<close>

type_synonym dumps = "job \<Rightarrow> bytes"
type_synonym loads = "bytes \<Rightarrow> job option"

definition reconstitute_job :: "loads \<Rightarrow> bytes \<Rightarrow> error + job" where
  "reconstitute_job loads job_state =
     (case loads job_state of None \<Rightarrow> Inl RestoreError | Some j \<Rightarrow> Inr j)"

definition lookup_job :: "loads \<Rightarrow> string \<Rightarrow> world \<Rightarrow> (error + job option) \<times> world" where
  "lookup_job loads i w =
     (case objects_get (\<lambda>r. dj_id r = i) (jobs w) of
        Got r \<Rightarrow>
          (let job_state = dj_job_state r in
           if job_state \<noteq> [] then
             (case reconstitute_job loads job_state of
                Inl e \<Rightarrow> (Inl e, w)
              | Inr j \<Rightarrow> (Inr (Some j), w))
           else (Inr None, w))
      | DoesNotExist \<Rightarrow> (Inr None, w)
      | MultipleObjectsReturned \<Rightarrow> (Inl DjangoJob_MultipleObjectsReturned, w))"

text \<open>
  The loop of \<^verbatim>\<open>_get_jobs\<close> over the \<^verbatim>\<open>(id, job_state)\<close> pairs, with its three
  accumulators: the restored jobs, the set of ids that failed, and what was logged.
\<close>

fun restore_loop ::
  "loads \<Rightarrow> (string \<times> bytes) list \<Rightarrow> job list \<Rightarrow> string set \<Rightarrow> log_record list
     \<Rightarrow> job list \<times> string set \<times> log_record list" where
  "restore_loop loads [] js failed_job_ids lg = (js, failed_job_ids, lg)"
| "restore_loop loads ((i, job_state) # rest) js failed_job_ids lg =
     (case reconstitute_job loads job_state of
        Inr j \<Rightarrow> restore_loop loads rest (js @ [j]) failed_job_ids lg
      | Inl e \<Rightarrow>
          restore_loop loads rest js (insert i failed_job_ids) (lg @ [UnableToRestore i]))"

definition get_jobs :: "loads \<Rightarrow> (DjangoJob \<Rightarrow> bool) \<Rightarrow> world \<Rightarrow> job list \<times> world" where
  "get_jobs loads filters w =
     (let job_states =
            map (\<lambda>r. (dj_id r, dj_job_state r))
              (order_by_next_run_time (filter filters (jobs w)));
          (js, failed_job_ids, lg) = restore_loop loads job_states [] {} [];
          w1 = log_append lg w
      in if failed_job_ids \<noteq> {} then
           (js, (log_append [RemovingFailedJobs failed_job_ids] w1)
                  \<lparr>jobs := filter (\<lambda>r. dj_id r \<notin> failed_job_ids) (jobs w)\<rparr>)
         else (js, w1))"

definition get_due_jobs :: "loads \<Rightarrow> time \<Rightarrow> world \<Rightarrow> (error + job list) \<times> world" where
  "get_due_jobs loads now w =
     (let dt = get_django_internal_datetime now;
          (js, w') = get_jobs loads (next_run_time__lte dt) w
      in (Inr js, w'))"

definition get_next_run_time :: "world \<Rightarrow> (error + time option) \<times> world" where
  "get_next_run_time w =
     (case earliest (filter next_run_time__isnull_False (jobs w)) of
        Got r \<Rightarrow> (Inr (get_apscheduler_datetime (dj_next_run_time r)), w)
      | DoesNotExist \<Rightarrow> (Inr None, w)
      | MultipleObjectsReturned \<Rightarrow> (Inl DjangoJob_MultipleObjectsReturned, w))"

text \<open>
  Modelled from the spec: \<^verbatim>\<open>_fix_paused_jobs_sorting\<close> is inherited from APScheduler's
  \<^verbatim>\<open>BaseJobStore\<close>, whose source is not among the sources. The spec (4.2, allJobs) asks
  for paused jobs "sorted to the end rather than first (the natural sort of
  null-as-minimum must be corrected)": the jobs in front of the first job with a next
  run time are moved, in their order, behind the others; a list with no such job, or
  with one in front, stays as it is. It reads the next run time of the job object.
\<close>

definition fix_paused_jobs_sorting :: "job list \<Rightarrow> job list" where
  "fix_paused_jobs_sorting js =
     (let paused_jobs = takeWhile (\<lambda>j. job_next_run_time j = None) js;
          others = dropWhile (\<lambda>j. job_next_run_time j = None) js
      in if others \<noteq> [] \<and> paused_jobs \<noteq> [] then others @ paused_jobs else js)"

definition get_all_jobs :: "loads \<Rightarrow> world \<Rightarrow> (error + job list) \<times> world" where
  "get_all_jobs loads w =
     (let (js, w') = get_jobs loads (\<lambda>r. True) w
      in (Inr (fix_paused_jobs_sorting js), w'))"

definition trigger_type :: "trigger \<Rightarrow> string" where
  "trigger_type t =
     (if t = DateTrigger then ''DATE''
      else if t = IntervalTrigger then ''INTERVAL''
      else if t = CronTrigger then ''CRON''
      else '''')"

text \<open>
  \<^verbatim>\<open>add_job\<close>: \<^verbatim>\<open>DjangoJob.objects.create\<close> inserts the row; on a primary key that
  is taken the insert raises \<^verbatim>\<open>IntegrityError\<close>, the transaction is rolled back and
  \<^verbatim>\<open>ConflictingIdError\<close> is raised.
\<close>

definition add_job :: "dumps \<Rightarrow> job \<Rightarrow> world \<Rightarrow> (error + DjangoJob) \<times> world" where
  "add_job dumps j w =
     (let r = \<lparr>dj_id = job_id j,
                dj_next_run_time = get_django_internal_datetime (job_next_run_time j),
                dj_job_state = dumps j,
                dj_trigger = trigger_type (job_trigger j)\<rparr>
      in if job_id j \<in> set (map dj_id (jobs w)) then (Inl (ConflictingIdError (job_id j)), w)
         else (Inr r, w\<lparr>jobs := jobs w @ [r]\<rparr>))"

definition update_job :: "dumps \<Rightarrow> job \<Rightarrow> world \<Rightarrow> (error + unit) \<times> world" where
  "update_job dumps j w =
     (case objects_get (\<lambda>r. dj_id r = job_id j) (jobs w) of
        Got db_job \<Rightarrow>
          (Inr (),
           save_job
             (db_job\<lparr>dj_next_run_time := get_django_internal_datetime (job_next_run_time j),
                     dj_job_state := dumps j\<rparr>) w)
      | DoesNotExist \<Rightarrow> (Inl (JobLookupError (job_id j)), w)
      | MultipleObjectsReturned \<Rightarrow> (Inl DjangoJob_MultipleObjectsReturned, w))"

text \<open>
  \<^verbatim>\<open>remove_job\<close> and \<^verbatim>\<open>remove_all_jobs\<close> delete rows of \<^verbatim>\<open>DjangoJob\<close>. No model
  refers to \<^verbatim>\<open>DjangoJob\<close> by a foreign key, so the deletion collects no other row.
\<close>

definition remove_job :: "string \<Rightarrow> world \<Rightarrow> (error + unit) \<times> world" where
  "remove_job i w =
     (case objects_get (\<lambda>r. dj_id r = i) (jobs w) of
        Got r \<Rightarrow> (Inr (), w\<lparr>jobs := filter (\<lambda>r'. dj_id r' \<noteq> dj_id r) (jobs w)\<rparr>)
      | DoesNotExist \<Rightarrow> (Inl (JobLookupError i), w)
      | MultipleObjectsReturned \<Rightarrow> (Inl DjangoJob_MultipleObjectsReturned, w))"

definition remove_all_jobs :: "world \<Rightarrow> (error + unit) \<times> world" where
  "remove_all_jobs w = (Inr (), w\<lparr>jobs := []\<rparr>)"

section \<open>DjangoResultStoreMixin: the event handlers (jobstore.py)\<close>

text \<open>
  The codes of APScheduler's job events, and what a handler reads of an event: its code,
  the job id and, on an execution event, the exception and the formatted traceback.
\<close>

datatype event_code =
    EVENT_JOB_ADDED
  | EVENT_JOB_REMOVED
  | EVENT_JOB_MODIFIED
  | EVENT_JOB_EXECUTED
  | EVENT_JOB_ERROR
  | EVENT_JOB_MISSED
  | EVENT_JOB_SUBMITTED
  | EVENT_JOB_MAX_INSTANCES

record event =
  ev_code :: event_code
  ev_job_id :: string
  ev_exception :: "string option"
  ev_traceback :: "string option"

text \<open>What a handler returns: \<^verbatim>\<open>None\<close>, the key of a row, or (ADDED) the row.\<close>

datatype handled = RetNone | RetId nat | RetExecution DjangoJobExecution

text \<open>\<^verbatim>\<open>str(x)\<close> of a value that may be \<^verbatim>\<open>None\<close>.\<close>

definition py_str :: "string option \<Rightarrow> string" where
  "py_str x = (case x of None \<Rightarrow> ''None'' | Some s \<Rightarrow> s)"

definition quoted :: "string \<Rightarrow> string" where
  "quoted s = CHR 0x27 # s @ [CHR 0x27]"

text \<open>
  In every handler \<open>now\<close> is what \<^verbatim>\<open>timezone.now()\<close> reads. A row of
  \<^verbatim>\<open>DjangoJobExecution\<close> holds no foreign key, so saving one never violates a
  constraint on the job: the \<^verbatim>\<open>except IntegrityError\<close> branches of
  \<^verbatim>\<open>handle_execution_event\<close> and \<^verbatim>\<open>handle_error_event\<close> have no raise to catch.
\<close>

definition handle_execution_event ::
  "time \<Rightarrow> event \<Rightarrow> world \<Rightarrow> (error + handled) \<times> world" where
  "handle_execution_event now event w =
     (if ev_code event \<noteq> EVENT_JOB_EXECUTED then (Inl NotImplementedError, w)
      else
        (case objects_get (\<lambda>e. ex_job e = ev_job_id event) (executions w) of
           Got job_execution \<Rightarrow>
             (Inr (RetId (ex_id job_execution)),
              save_execution now
                (job_execution\<lparr>ex_status := SUCCESS, ex_finished := Some now\<rparr>) w)
         | DoesNotExist \<Rightarrow>
             (Inr RetNone, log_append [JobNoLongerExists (ev_job_id event)] w)
         | MultipleObjectsReturned \<Rightarrow> (Inl DjangoJobExecution_MultipleObjectsReturned, w)))"

definition handle_error_event ::
  "time \<Rightarrow> event \<Rightarrow> world \<Rightarrow> (error + handled) \<times> world" where
  "handle_error_event now event w =
     (if ev_code event = EVENT_JOB_ERROR then
        (let (exception, traceback) =
               (case ev_exception event of
                  Some x \<Rightarrow> (x, Some (py_str (ev_traceback event)))
                | None \<Rightarrow>
                    (''Job '' @ quoted (ev_job_id event) @ '' raised an error!'', None))
         in case objects_get (\<lambda>e. ex_job e = ev_job_id event) (executions w) of
              Got job_execution \<Rightarrow>
                (Inr (RetId (ex_id job_execution)),
                 save_execution now
                   (job_execution\<lparr>ex_status := ERROR, ex_exception := Some exception,
                                   ex_traceback := traceback\<rparr>) w)
            | DoesNotExist \<Rightarrow>
                (Inr RetNone, log_append [JobNoLongerExists (ev_job_id event)] w)
            | MultipleObjectsReturned \<Rightarrow>
                (Inl DjangoJobExecution_MultipleObjectsReturned, w))
      else if ev_code event = EVENT_JOB_MISSED then
        (let exception = ''Run time of job '' @ quoted (ev_job_id event) @ '' was missed!''
         in case objects_get (\<lambda>e. ex_job e = ev_job_id event) (executions w) of
              Got job_execution \<Rightarrow>
                (Inr (RetId (ex_id job_execution)),
                 save_execution now
                   (job_execution\<lparr>ex_status := MISSED, ex_exception := Some exception\<rparr>) w)
            | DoesNotExist \<Rightarrow>
                (Inr RetNone, log_append [JobNoLongerExists (ev_job_id event)] w)
            | MultipleObjectsReturned \<Rightarrow>
                (Inl DjangoJobExecution_MultipleObjectsReturned, w))
      else (Inl NotImplementedError, w))"

text \<open>
  \<^verbatim>\<open>handle_added_job_event\<close> reads the job row before its \<^verbatim>\<open>try\<close>: a missing
  job row raises \<^verbatim>\<open>DjangoJob.DoesNotExist\<close> to the caller.
\<close>

definition handle_added_job_event ::
  "time \<Rightarrow> event \<Rightarrow> world \<Rightarrow> (error + handled) \<times> world" where
  "handle_added_job_event now event w =
     (case objects_get (\<lambda>r. dj_id r = ev_job_id event) (jobs w) of
        DoesNotExist \<Rightarrow> (Inl DjangoJob_DoesNotExist, w)
      | MultipleObjectsReturned \<Rightarrow> (Inl DjangoJob_MultipleObjectsReturned, w)
      | Got job \<Rightarrow>
          (case objects_get (\<lambda>e. ex_job e = ev_job_id event) (executions w) of
             Got execution \<Rightarrow>
               (let execution' = execution\<lparr>ex_status := START, ex_run_time := now,
                                             ex_type := dj_trigger job\<rparr>
                in (Inr (RetExecution (execution'\<lparr>ex_updated_at := now\<rparr>)),
                    save_execution now execution' w))
           | DoesNotExist \<Rightarrow>
               (let (execution, w') =
                      create_execution now (ev_job_id event) START (dj_trigger job) now w
                in (Inr (RetExecution execution), w'))
           | MultipleObjectsReturned \<Rightarrow>
               (Inl DjangoJobExecution_MultipleObjectsReturned, w)))"

text \<open>
  \<^verbatim>\<open>handle_modify_event\<close> catches \<^verbatim>\<open>DjangoJobExecution.DoesNotExist\<close> only: a
  missing job row raises \<^verbatim>\<open>DjangoJob.DoesNotExist\<close> to the caller. The column
  \<^verbatim>\<open>run_time\<close> is not nullable, so saving the next run time of a paused job raises
  \<^verbatim>\<open>IntegrityError\<close>.
\<close>

definition handle_modify_event ::
  "time \<Rightarrow> event \<Rightarrow> world \<Rightarrow> (error + handled) \<times> world" where
  "handle_modify_event now event w =
     (case objects_get (\<lambda>e. ex_job e = ev_job_id event) (executions w) of
        Got job_execution \<Rightarrow>
          (case objects_get (\<lambda>r. dj_id r = ev_job_id event) (jobs w) of
             Got job \<Rightarrow>
               (case dj_next_run_time job of
                  Some t \<Rightarrow>
                    (Inr (RetId (ex_id job_execution)),
                     save_execution now (job_execution\<lparr>ex_run_time := t\<rparr>) w)
                | None \<Rightarrow> (Inl IntegrityError, w))
           | DoesNotExist \<Rightarrow> (Inl DjangoJob_DoesNotExist, w)
           | MultipleObjectsReturned \<Rightarrow> (Inl DjangoJob_MultipleObjectsReturned, w))
      | DoesNotExist \<Rightarrow>
          (Inr RetNone, log_append [JobNoLongerExists (ev_job_id event)] w)
      | MultipleObjectsReturned \<Rightarrow> (Inl DjangoJobExecution_MultipleObjectsReturned, w))"

text \<open>
  \<^verbatim>\<open>register_event_listeners\<close>: which handler the scheduler calls for which code
  (\<^verbatim>\<open>handle_error_event\<close> listens to \<^verbatim>\<open>EVENT_JOB_ERROR | EVENT_JOB_MISSED\<close>); an
  event of any other code reaches no handler.
\<close>

definition dispatch_event ::
  "time \<Rightarrow> event \<Rightarrow> world \<Rightarrow> (error + handled) \<times> world" where
  "dispatch_event now event w =
     (case ev_code event of
        EVENT_JOB_ADDED \<Rightarrow> handle_added_job_event now event w
      | EVENT_JOB_EXECUTED \<Rightarrow> handle_execution_event now event w
      | EVENT_JOB_ERROR \<Rightarrow> handle_error_event now event w
      | EVENT_JOB_MISSED \<Rightarrow> handle_error_event now event w
      | EVENT_JOB_MODIFIED \<Rightarrow> handle_modify_event now event w
      | EVENT_JOB_REMOVED \<Rightarrow> (Inr RetNone, w)
      | EVENT_JOB_SUBMITTED \<Rightarrow> (Inr RetNone, w)
      | EVENT_JOB_MAX_INSTANCES \<Rightarrow> (Inr RetNone, w))"

text \<open>
  A sequence of events, each with the time at which it is handled. The state a handler
  leaves is the state the next one starts from, whether it returned or raised (a handler
  that raises has written nothing).
\<close>

fun process_events :: "(time \<times> event) list \<Rightarrow> world \<Rightarrow> world" where
  "process_events [] w = w"
| "process_events ((now, event) # rest) w =
     process_events rest (snd (dispatch_event now event w))"

text \<open>
  The primary key of \<^verbatim>\<open>DjangoJobExecution\<close> is a \<^verbatim>\<open>BigAutoField\<close>: the keys of the
  rows are distinct, and each was issued by the sequence.
\<close>

definition ledger_wf :: "world \<Rightarrow> bool" where
  "ledger_wf w =
     (distinct (map ex_id (executions w)) \<and>
      list_all (\<lambda>e. ex_id e < next_execution_id w) (executions w))"

text \<open>
  A row agrees with its blob when the blob does not load, or loads to a job whose next run
  time is the one in the column \<^verbatim>\<open>next_run_time\<close>. \<^verbatim>\<open>add_job\<close> and
  \<^verbatim>\<open>update_job\<close> write both from the same job object.
\<close>

definition next_run_time_agrees :: "loads \<Rightarrow> DjangoJob \<Rightarrow> bool" where
  "next_run_time_agrees loads r =
     (case loads (dj_job_state r) of
        None \<Rightarrow> True
      | Some j \<Rightarrow> job_next_run_time j = dj_next_run_time r)"

section \<open>Concrete inputs\<close>

text \<open>
  A job, a serializer that covers three jobs (every other blob fails to load), table rows
  and events, for the instances at which the theorems below are evaluated.
\<close>

definition demo_job :: "string \<Rightarrow> time option \<Rightarrow> job" where
  "demo_job i t =
     \<lparr>job_id = i, job_trigger = IntervalTrigger, job_next_run_time = t,
      job_func = ''tasks:run''\<rparr>"

definition demo_dumps :: dumps where
  "demo_dumps j = ''pickle:'' @ job_id j"

definition demo_loads :: loads where
  "demo_loads b =
     (if b = ''pickle:A'' then Some (demo_job ''A'' (Some 5))
      else if b = ''pickle:B'' then Some (demo_job ''B'' None)
      else if b = ''pickle:C'' then Some (demo_job ''C'' (Some 3))
      else None)"

definition demo_row :: "string \<Rightarrow> time option \<Rightarrow> bytes \<Rightarrow> DjangoJob" where
  "demo_row i t b =
     \<lparr>dj_id = i, dj_next_run_time = t, dj_job_state = b, dj_trigger = ''INTERVAL''\<rparr>"

definition demo_event :: "event_code \<Rightarrow> string \<Rightarrow> event" where
  "demo_event c i =
     \<lparr>ev_code = c, ev_job_id = i, ev_exception = None, ev_traceback = None\<rparr>"

definition demo_execution :: "nat \<Rightarrow> string \<Rightarrow> string \<Rightarrow> DjangoJobExecution" where
  "demo_execution k j st =
     \<lparr>ex_id = k, ex_job = j, ex_status = st, ex_run_time = 100, ex_type = ''INTERVAL'',
      ex_finished = None, ex_exception = None, ex_traceback = None, ex_created_at = 100,
      ex_updated_at = 100\<rparr>"

definition empty_world :: world where
  "empty_world = \<lparr>jobs = [], executions = [], next_execution_id = 1, log = []\<rparr>"

lemmas demo_defs =
  demo_job_def demo_dumps_def demo_loads_def demo_row_def demo_event_def demo_execution_def
  empty_world_def

section \<open>Rows and keys\<close>

lemma filter_absent:
  "k \<notin> f ` set rows \<Longrightarrow> filter (\<lambda>x. f x = k) rows = []"
  by (induction rows) auto

lemma filter_key_unique:
  "distinct (map f rows) \<Longrightarrow> r \<in> set rows \<Longrightarrow> filter (\<lambda>x. f x = f r) rows = [r]"
proof (induction rows)
  case Nil
  then show ?case by simp
next
  case (Cons a rows)
  show ?case
  proof (cases "a = r")
    case True
    with Cons.prems have "f r \<notin> f ` set rows" by simp
    then have "filter (\<lambda>x. f x = f r) rows = []"
      by (simp add: filter_absent)
    with True show ?thesis by simp
  next
    case False
    with Cons.prems have "r \<in> set rows" "f a \<noteq> f r" by auto
    with Cons show ?thesis by simp
  qed
qed

lemma objects_get_primary_key:
  "distinct (map f rows) \<Longrightarrow> r \<in> set rows \<Longrightarrow> objects_get (\<lambda>x. f x = f r) rows = Got r"
  by (simp add: objects_get_def filter_key_unique)

lemma objects_get_absent:
  "k \<notin> f ` set rows \<Longrightarrow> objects_get (\<lambda>x. f x = k) rows = DoesNotExist"
  by (simp add: objects_get_def filter_absent)

section \<open>add_job and lookup_job\<close>

text \<open>
  C5. In a store that holds a row with the id of the job, \<^verbatim>\<open>add_job\<close> raises
  \<^verbatim>\<open>ConflictingIdError\<close> with that id and leaves the whole store, the existing row
  included, as it was.
\<close>

theorem add_job_conflicting_id:
  assumes "r \<in> set (jobs w)" and "dj_id r = job_id j"
  shows "add_job dumps j w = (Inl (ConflictingIdError (job_id j)), w)"
proof -
  from assms have "job_id j \<in> set (map dj_id (jobs w))" by force
  then show ?thesis by (simp add: add_job_def Let_def)
qed

theorem add_job_conflicting_id_witness:
  "demo_row ''A'' (Some 5) ''pickle:A''
     \<in> set (jobs (empty_world\<lparr>jobs := [demo_row ''A'' (Some 5) ''pickle:A'']\<rparr>)) \<and>
   dj_id (demo_row ''A'' (Some 5) ''pickle:A'') = job_id (demo_job ''A'' (Some 9)) \<and>
   add_job demo_dumps (demo_job ''A'' (Some 9))
       (empty_world\<lparr>jobs := [demo_row ''A'' (Some 5) ''pickle:A'']\<rparr>) =
     (Inl (ConflictingIdError ''A''),
      empty_world\<lparr>jobs := [demo_row ''A'' (Some 5) ''pickle:A'']\<rparr>)"
  using add_job_conflicting_id
    [of "demo_row ''A'' (Some 5) ''pickle:A''"
        "empty_world\<lparr>jobs := [demo_row ''A'' (Some 5) ''pickle:A'']\<rparr>"
        "demo_job ''A'' (Some 9)" demo_dumps]
  by (simp add: demo_defs)



text \<open>
  C10. \<^verbatim>\<open>lookup_job\<close> of a stored row (ids are the primary key, so they are distinct):
  when the blob is not empty and fails to load, the exception reaches the caller and the
  store is left as it was, the row still in it; when the blob is empty, the result is
  \<^verbatim>\<open>None\<close> and nothing is decoded.
\<close>

theorem lookup_job_decode_failure:
  assumes "distinct (map dj_id (jobs w))" and "r \<in> set (jobs w)"
  shows "(dj_job_state r \<noteq> [] \<and> loads (dj_job_state r) = None \<longrightarrow>
            lookup_job loads (dj_id r) w = (Inl RestoreError, w)) \<and>
         (dj_job_state r = [] \<longrightarrow> lookup_job loads (dj_id r) w = (Inr None, w))"
  using objects_get_primary_key [OF assms]
  by (simp add: lookup_job_def reconstitute_job_def Let_def)

theorem lookup_job_decode_failure_witness:
  "distinct (map dj_id (jobs (empty_world
      \<lparr>jobs := [demo_row ''X'' (Some 5) ''garbage'', demo_row ''E'' None []]\<rparr>))) \<and>
   lookup_job demo_loads ''X''
       (empty_world\<lparr>jobs := [demo_row ''X'' (Some 5) ''garbage'', demo_row ''E'' None []]\<rparr>) =
     (Inl RestoreError,
      empty_world\<lparr>jobs := [demo_row ''X'' (Some 5) ''garbage'', demo_row ''E'' None []]\<rparr>) \<and>
   lookup_job demo_loads ''E''
       (empty_world\<lparr>jobs := [demo_row ''X'' (Some 5) ''garbage'', demo_row ''E'' None []]\<rparr>) =
     (Inr None,
      empty_world\<lparr>jobs := [demo_row ''X'' (Some 5) ''garbage'', demo_row ''E'' None []]\<rparr>)"
  using lookup_job_decode_failure
      [of "empty_world\<lparr>jobs := [demo_row ''X'' (Some 5) ''garbage'', demo_row ''E'' None []]\<rparr>"
          "demo_row ''X'' (Some 5) ''garbage''" demo_loads]
    lookup_job_decode_failure
      [of "empty_world\<lparr>jobs := [demo_row ''X'' (Some 5) ''garbage'', demo_row ''E'' None []]\<rparr>"
          "demo_row ''E'' None []" demo_loads]
  by (simp add: demo_defs)

section \<open>remove_job and remove_all_jobs\<close>

text \<open>
  C1. Job \<open>A\<close> is added and its ADDED event handled, so the ledger holds one row for
  \<open>A\<close>. After \<^verbatim>\<open>remove_job\<close> of \<open>A\<close>, and likewise after \<^verbatim>\<open>remove_all_jobs\<close>, the job
  table is empty and the ledger still holds the row for \<open>A\<close>: the deletion does not
  reach \<^verbatim>\<open>DjangoJobExecution\<close>.
\<close>

theorem remove_job_leaves_execution_rows:
  "jobs (snd (remove_job ''A''
       (snd (handle_added_job_event 100 (demo_event EVENT_JOB_ADDED ''A'')
         (snd (add_job demo_dumps (demo_job ''A'' (Some 5)) empty_world)))))) = [] \<and>
   map ex_job (executions
     (snd (remove_job ''A''
       (snd (handle_added_job_event 100 (demo_event EVENT_JOB_ADDED ''A'')
         (snd (add_job demo_dumps (demo_job ''A'' (Some 5)) empty_world))))))) = [''A''] \<and>
   jobs (snd (remove_all_jobs
       (snd (handle_added_job_event 100 (demo_event EVENT_JOB_ADDED ''A'')
         (snd (add_job demo_dumps (demo_job ''A'' (Some 5)) empty_world)))))) = [] \<and>
   map ex_job (executions
     (snd (remove_all_jobs
       (snd (handle_added_job_event 100 (demo_event EVENT_JOB_ADDED ''A'')
         (snd (add_job demo_dumps (demo_job ''A'' (Some 5)) empty_world))))))) = [''A'']"
  by (simp add: demo_defs remove_job_def remove_all_jobs_def handle_added_job_event_def
      add_job_def objects_get_def create_execution_def Let_def)

section \<open>The event handlers and the ledger\<close>

lemma objects_get_Got:
  "objects_get p rows = Got r \<Longrightarrow> r \<in> set rows \<and> p r"
proof -
  assume "objects_get p rows = Got r"
  then have "filter p rows = [r]"
    by (simp add: objects_get_def split: list.splits)
  then have "r \<in> set (filter p rows)" by simp
  then show ?thesis by simp
qed

lemma objects_get_DoesNotExist:
  "objects_get p rows = DoesNotExist \<Longrightarrow> filter p rows = []"
  by (simp add: objects_get_def split: list.splits)

lemma log_append_tables [simp]:
  "jobs (log_append rs w) = jobs w"
  "executions (log_append rs w) = executions w"
  "next_execution_id (log_append rs w) = next_execution_id w"
  "log (log_append rs w) = log w @ rs"
  by (simp_all add: log_append_def)

lemma save_execution_tables [simp]:
  "jobs (save_execution now e w) = jobs w"
  "next_execution_id (save_execution now e w) = next_execution_id w"
  "log (save_execution now e w) = log w"
  by (simp_all add: save_execution_def)

lemma log_append_wf [simp]: "ledger_wf (log_append rs w) = ledger_wf w"
  by (simp add: ledger_wf_def)

lemma save_execution_ids:
  "map ex_id (executions (save_execution now e w)) = map ex_id (executions w)"
  by (simp add: save_execution_def)

lemma save_execution_jobs:
  assumes "distinct (map ex_id (executions w))" and "e \<in> set (executions w)"
    and "ex_id e' = ex_id e" and "ex_job e' = ex_job e"
  shows "map ex_job (executions (save_execution now e' w)) = map ex_job (executions w)"
proof -
  have "ex_job (if ex_id r = ex_id e' then e'\<lparr>ex_updated_at := now\<rparr> else r) = ex_job r"
    if "r \<in> set (executions w)" for r
  proof (cases "ex_id r = ex_id e'")
    case True
    with assms that have "r = e"
      by (metis distinct_map inj_onD)
    with True assms show ?thesis by simp
  next
    case False
    then show ?thesis by simp
  qed
  then show ?thesis by (simp add: save_execution_def)
qed

lemma save_execution_wf:
  "ledger_wf w \<Longrightarrow> ledger_wf (save_execution now e w)"
proof -
  assume wf: "ledger_wf w"
  have ids: "map ex_id (executions (save_execution now e w)) = map ex_id (executions w)"
    by (rule save_execution_ids)
  have "list_all (\<lambda>e. ex_id e < next_execution_id w) (executions (save_execution now e w))
        = list_all (\<lambda>i. i < next_execution_id w) (map ex_id (executions (save_execution now e w)))"
    by (simp add: list_all_iff)
  also have "\<dots> = list_all (\<lambda>e. ex_id e < next_execution_id w) (executions w)"
    by (simp only: ids) (simp add: list_all_iff)
  finally show ?thesis using wf by (simp add: ledger_wf_def ids)
qed

lemma create_execution_wf:
  "ledger_wf w \<Longrightarrow> ledger_wf (snd (create_execution now j st ty rt w))"
  by (auto simp: ledger_wf_def create_execution_def Let_def list_all_iff)

lemma create_execution_jobs:
  "map ex_job (executions (snd (create_execution now j st ty rt w))) =
     map ex_job (executions w) @ [j]"
  by (simp add: create_execution_def Let_def)

text \<open>The handlers of EXECUTED, ERROR, MISSED and MODIFIED write to rows that exist.\<close>

lemma handle_execution_event_ledger:
  assumes "ledger_wf w"
  shows "ledger_wf (snd (handle_execution_event now ev w)) \<and>
         map ex_job (executions (snd (handle_execution_event now ev w))) =
           map ex_job (executions w)"
proof (cases "objects_get (\<lambda>e. ex_job e = ev_job_id ev) (executions w)")
  case (Got e)
  then have "e \<in> set (executions w)" by (simp add: objects_get_Got)
  moreover from assms have "distinct (map ex_id (executions w))" by (simp add: ledger_wf_def)
  ultimately show ?thesis using assms Got
    by (simp add: handle_execution_event_def save_execution_wf save_execution_jobs)
qed (use assms in \<open>simp_all add: handle_execution_event_def\<close>)

lemma handle_error_event_ledger:
  assumes "ledger_wf w"
  shows "ledger_wf (snd (handle_error_event now ev w)) \<and>
         map ex_job (executions (snd (handle_error_event now ev w))) =
           map ex_job (executions w)"
proof (cases "objects_get (\<lambda>e. ex_job e = ev_job_id ev) (executions w)")
  case (Got e)
  then have "e \<in> set (executions w)" by (simp add: objects_get_Got)
  moreover from assms have "distinct (map ex_id (executions w))" by (simp add: ledger_wf_def)
  ultimately show ?thesis using assms Got
    by (simp add: handle_error_event_def save_execution_wf save_execution_jobs
        split: option.split)
qed (use assms in \<open>simp_all add: handle_error_event_def split: option.split\<close>)

lemma handle_modify_event_ledger:
  assumes "ledger_wf w"
  shows "ledger_wf (snd (handle_modify_event now ev w)) \<and>
         map ex_job (executions (snd (handle_modify_event now ev w))) =
           map ex_job (executions w)"
proof (cases "objects_get (\<lambda>e. ex_job e = ev_job_id ev) (executions w)")
  case (Got e)
  then have "e \<in> set (executions w)" by (simp add: objects_get_Got)
  moreover from assms have "distinct (map ex_id (executions w))" by (simp add: ledger_wf_def)
  ultimately show ?thesis using assms Got
    by (simp add: handle_modify_event_def save_execution_wf save_execution_jobs
        split: got.split option.split)
qed (use assms in \<open>simp_all add: handle_modify_event_def\<close>)

lemma handle_added_job_event_ledger:
  assumes "ledger_wf w" and "distinct (map ex_job (executions w))"
  shows "ledger_wf (snd (handle_added_job_event now ev w)) \<and>
         distinct (map ex_job (executions (snd (handle_added_job_event now ev w))))"
proof (cases "objects_get (\<lambda>r. dj_id r = ev_job_id ev) (jobs w)")
  case (Got r)
  show ?thesis
  proof (cases "objects_get (\<lambda>e. ex_job e = ev_job_id ev) (executions w)")
    case e: (Got e)
    then have "e \<in> set (executions w)" by (simp add: objects_get_Got)
    moreover from assms have "distinct (map ex_id (executions w))" by (simp add: ledger_wf_def)
    ultimately show ?thesis using assms Got e
      by (simp add: handle_added_job_event_def Let_def save_execution_wf save_execution_jobs)
  next
    case DoesNotExist
    then have "filter (\<lambda>e. ex_job e = ev_job_id ev) (executions w) = []"
      by (rule objects_get_DoesNotExist)
    then have "ev_job_id ev \<notin> set (map ex_job (executions w))"
      by (auto simp: filter_empty_conv)
    with assms Got DoesNotExist show ?thesis
      using create_execution_wf [of w now "ev_job_id ev" START "dj_trigger r" now]
        create_execution_jobs [of now "ev_job_id ev" START "dj_trigger r" now w]
      by (simp add: handle_added_job_event_def split_beta)
  next
    case MultipleObjectsReturned
    with assms Got show ?thesis by (simp add: handle_added_job_event_def)
  qed
qed (use assms in \<open>simp_all add: handle_added_job_event_def\<close>)

lemma dispatch_event_ledger:
  assumes "ledger_wf w" and "distinct (map ex_job (executions w))"
  shows "ledger_wf (snd (dispatch_event now ev w)) \<and>
         distinct (map ex_job (executions (snd (dispatch_event now ev w))))"
  using assms handle_added_job_event_ledger [OF assms, of now ev]
    handle_execution_event_ledger [OF assms(1), of now ev]
    handle_error_event_ledger [OF assms(1), of now ev]
    handle_modify_event_ledger [OF assms(1), of now ev]
  by (cases "ev_code ev") (simp_all add: dispatch_event_def)

lemma process_events_ledger:
  "ledger_wf w \<Longrightarrow> distinct (map ex_job (executions w)) \<Longrightarrow>
   ledger_wf (process_events evs w) \<and> distinct (map ex_job (executions (process_events evs w)))"
proof (induction evs arbitrary: w)
  case Nil
  then show ?case by simp
next
  case (Cons a evs)
  obtain now ev where a: "a = (now, ev)" by (cases a)
  from dispatch_event_ledger [OF Cons.prems, of now ev] Cons.IH a show ?case by simp
qed


lemma save_execution_in_place:
  assumes "distinct (map ex_id (executions w))" and "e \<in> set (executions w)"
    and "ex_id e' = ex_id e"
  shows "executions (save_execution now e' w) =
           map (\<lambda>x. if x = e then e'\<lparr>ex_updated_at := now\<rparr> else x) (executions w)"
proof -
  have "(ex_id x = ex_id e') = (x = e)" if "x \<in> set (executions w)" for x
    using assms that by (metis distinct_map inj_onD)
  then show ?thesis by (simp add: save_execution_def cong: map_cong)
qed

text \<open>
  C9, as the code has it. From a ledger with at most one row per job id (and well-formed
  keys), any sequence of events leaves at most one row per job id. An ADDED event for an
  id that has a job row rewrites the ledger row of that id in place when there is one
  (status, run time, trigger type; the list of rows keeps its length), and appends one
  row when there is none.
\<close>

theorem one_execution_record_per_job:
  assumes "ledger_wf w" and "distinct (map ex_job (executions w))"
  shows "distinct (map ex_job (executions (process_events evs w))) \<and>
         (\<forall>now ev r.
            ev_code ev = EVENT_JOB_ADDED \<and>
            objects_get (\<lambda>x. dj_id x = ev_job_id ev) (jobs w) = Got r \<longrightarrow>
              (\<forall>e \<in> set (executions w). ex_job e = ev_job_id ev \<longrightarrow>
                 executions (snd (dispatch_event now ev w)) =
                   map (\<lambda>x. if x = e
                             then e\<lparr>ex_status := START, ex_run_time := now,
                                    ex_type := dj_trigger r, ex_updated_at := now\<rparr>
                             else x) (executions w)) \<and>
              (ev_job_id ev \<notin> set (map ex_job (executions w)) \<longrightarrow>
                 executions (snd (dispatch_event now ev w)) =
                   executions w @
                   [\<lparr>ex_id = next_execution_id w, ex_job = ev_job_id ev, ex_status = START,
                     ex_run_time = now, ex_type = dj_trigger r, ex_finished = None,
                     ex_exception = None, ex_traceback = None, ex_created_at = now,
                     ex_updated_at = now\<rparr>]))"
proof (intro conjI allI impI ballI)
  show "distinct (map ex_job (executions (process_events evs w)))"
    using process_events_ledger [OF assms] by simp
next
  fix now and ev :: event and r e
  assume ev: "ev_code ev = EVENT_JOB_ADDED \<and>
      objects_get (\<lambda>x. dj_id x = ev_job_id ev) (jobs w) = Got r"
    and e: "e \<in> set (executions w)" "ex_job e = ev_job_id ev"
  from assms(2) e have "objects_get (\<lambda>x. ex_job x = ev_job_id ev) (executions w) = Got e"
    using objects_get_primary_key [of ex_job "executions w" e] by simp
  moreover from assms(1) have "distinct (map ex_id (executions w))"
    by (simp add: ledger_wf_def)
  ultimately show "executions (snd (dispatch_event now ev w)) =
      map (\<lambda>x. if x = e
                then e\<lparr>ex_status := START, ex_run_time := now,
                       ex_type := dj_trigger r, ex_updated_at := now\<rparr>
                else x) (executions w)"
    using ev e save_execution_in_place
      [of w e "e\<lparr>ex_status := START, ex_run_time := now, ex_type := dj_trigger r\<rparr>" now]
    by (simp add: dispatch_event_def handle_added_job_event_def Let_def)
next
  fix now and ev :: event and r
  assume ev: "ev_code ev = EVENT_JOB_ADDED \<and>
      objects_get (\<lambda>x. dj_id x = ev_job_id ev) (jobs w) = Got r"
    and none: "ev_job_id ev \<notin> set (map ex_job (executions w))"
  from none have "objects_get (\<lambda>x. ex_job x = ev_job_id ev) (executions w) = DoesNotExist"
    by (simp add: objects_get_absent)
  with ev show "executions (snd (dispatch_event now ev w)) =
      executions w @
      [\<lparr>ex_id = next_execution_id w, ex_job = ev_job_id ev, ex_status = START,
        ex_run_time = now, ex_type = dj_trigger r, ex_finished = None,
        ex_exception = None, ex_traceback = None, ex_created_at = now,
        ex_updated_at = now\<rparr>]"
    by (simp add: dispatch_event_def handle_added_job_event_def create_execution_def Let_def)
qed

theorem one_execution_record_per_job_witness:
  "ledger_wf (empty_world\<lparr>jobs := [demo_row ''A'' (Some 5) ''pickle:A'',
                                 demo_row ''B'' None ''pickle:B''],
                        executions := [demo_execution 1 ''A'' SUCCESS],
                        next_execution_id := 2\<rparr>) \<and>
   map ex_job (executions
     (process_events
        [(120, demo_event EVENT_JOB_ADDED ''A''), (130, demo_event EVENT_JOB_ADDED ''B''),
         (140, demo_event EVENT_JOB_EXECUTED ''A''), (150, demo_event EVENT_JOB_ADDED ''A'')]
        (empty_world\<lparr>jobs := [demo_row ''A'' (Some 5) ''pickle:A'',
                               demo_row ''B'' None ''pickle:B''],
                      executions := [demo_execution 1 ''A'' SUCCESS],
                      next_execution_id := 2\<rparr>))) = [''A'', ''B''] \<and>
   distinct (map ex_job (executions
     (process_events
        [(120, demo_event EVENT_JOB_ADDED ''A''), (130, demo_event EVENT_JOB_ADDED ''B''),
         (140, demo_event EVENT_JOB_EXECUTED ''A''), (150, demo_event EVENT_JOB_ADDED ''A'')]
        (empty_world\<lparr>jobs := [demo_row ''A'' (Some 5) ''pickle:A'',
                               demo_row ''B'' None ''pickle:B''],
                      executions := [demo_execution 1 ''A'' SUCCESS],
                      next_execution_id := 2\<rparr>)))) \<and>
   executions (snd (dispatch_event 120 (demo_event EVENT_JOB_ADDED ''A'')
        (empty_world\<lparr>jobs := [demo_row ''A'' (Some 5) ''pickle:A'',
                               demo_row ''B'' None ''pickle:B''],
                      executions := [demo_execution 1 ''A'' SUCCESS],
                      next_execution_id := 2\<rparr>))) =
     [(demo_execution 1 ''A'' START)\<lparr>ex_run_time := 120, ex_updated_at := 120\<rparr>]"
  using one_execution_record_per_job
    [of "empty_world\<lparr>jobs := [demo_row ''A'' (Some 5) ''pickle:A'',
                               demo_row ''B'' None ''pickle:B''],
                      executions := [demo_execution 1 ''A'' SUCCESS],
                      next_execution_id := 2\<rparr>"
        "[(120, demo_event EVENT_JOB_ADDED ''A''), (130, demo_event EVENT_JOB_ADDED ''B''),
          (140, demo_event EVENT_JOB_EXECUTED ''A''), (150, demo_event EVENT_JOB_ADDED ''A'')]"]
  by (simp add: demo_defs ledger_wf_def dispatch_event_def handle_added_job_event_def
      handle_execution_event_def objects_get_def create_execution_def save_execution_def
      Let_def START_def SUCCESS_def)

text \<open>
  C9 as stated fails for an id that has a ledger row and no job row (the state after
  \<^verbatim>\<open>remove_job\<close>, which leaves the ledger row): the ADDED handler reads the job row
  first, raises \<^verbatim>\<open>DjangoJob.DoesNotExist\<close> and resets nothing, the ledger row keeping
  its old status and run time.
\<close>

theorem added_event_without_job_row_resets_nothing:
  "jobs (empty_world\<lparr>executions := [demo_execution 1 ''A'' SUCCESS],
                     next_execution_id := 2\<rparr>) = [] \<and>
   map ex_job (executions (empty_world\<lparr>executions := [demo_execution 1 ''A'' SUCCESS],
                                       next_execution_id := 2\<rparr>)) = [''A''] \<and>
   dispatch_event 120 (demo_event EVENT_JOB_ADDED ''A'')
       (empty_world\<lparr>executions := [demo_execution 1 ''A'' SUCCESS],
                    next_execution_id := 2\<rparr>) =
     (Inl DjangoJob_DoesNotExist,
      empty_world\<lparr>executions := [demo_execution 1 ''A'' SUCCESS],
                  next_execution_id := 2\<rparr>) \<and>
   map ex_status (executions (snd (dispatch_event 120 (demo_event EVENT_JOB_ADDED ''A'')
       (empty_world\<lparr>executions := [demo_execution 1 ''A'' SUCCESS],
                    next_execution_id := 2\<rparr>)))) = [SUCCESS]"
  by (simp add: demo_defs dispatch_event_def handle_added_job_event_def objects_get_def)

text \<open>
  C2, as the code has it. An EXECUTED, ERROR, MISSED or MODIFIED event whose job id has
  no row in the ledger is skipped: the handler returns \<^verbatim>\<open>None\<close>, raises nothing, leaves
  both tables as they were and logs one warning with the job id. An ADDED event whose
  job id has a job row and no ledger row appends the ledger row.
\<close>

theorem event_without_execution_record:
  assumes "ev_job_id ev \<notin> set (map ex_job (executions w))"
  shows "(ev_code ev \<in> {EVENT_JOB_EXECUTED, EVENT_JOB_ERROR, EVENT_JOB_MISSED,
                         EVENT_JOB_MODIFIED} \<longrightarrow>
            dispatch_event now ev w =
              (Inr RetNone, w\<lparr>log := log w @ [JobNoLongerExists (ev_job_id ev)]\<rparr>)) \<and>
         (ev_code ev = EVENT_JOB_ADDED \<longrightarrow>
            (\<forall>r. objects_get (\<lambda>x. dj_id x = ev_job_id ev) (jobs w) = Got r \<longrightarrow>
               (\<exists>e. dispatch_event now ev w =
                       (Inr (RetExecution e),
                        w\<lparr>executions := executions w @ [e],
                          next_execution_id := Suc (next_execution_id w)\<rparr>) \<and>
                    ex_job e = ev_job_id ev \<and> ex_status e = START \<and>
                    ex_run_time e = now \<and> ex_type e = dj_trigger r)))"
proof -
  from assms
  have none: "objects_get (\<lambda>x. ex_job x = ev_job_id ev) (executions w) = DoesNotExist"
    by (simp add: objects_get_absent)
  show ?thesis
    by (auto simp: dispatch_event_def handle_execution_event_def handle_error_event_def
        handle_modify_event_def handle_added_job_event_def create_execution_def
        log_append_def none Let_def split: option.split)
qed
theorem event_without_execution_record_witness:
  "ev_job_id (demo_event EVENT_JOB_EXECUTED ''A'')
     \<notin> set (map ex_job (executions
          (empty_world\<lparr>jobs := [demo_row ''A'' (Some 5) ''pickle:A'']\<rparr>))) \<and>
   dispatch_event 100 (demo_event EVENT_JOB_EXECUTED ''A'')
       (empty_world\<lparr>jobs := [demo_row ''A'' (Some 5) ''pickle:A'']\<rparr>) =
     (Inr RetNone,
      empty_world\<lparr>jobs := [demo_row ''A'' (Some 5) ''pickle:A''],
                  log := [JobNoLongerExists ''A'']\<rparr>) \<and>
   dispatch_event 100 (demo_event EVENT_JOB_MODIFIED ''A'')
       (empty_world\<lparr>jobs := [demo_row ''A'' (Some 5) ''pickle:A'']\<rparr>) =
     (Inr RetNone,
      empty_world\<lparr>jobs := [demo_row ''A'' (Some 5) ''pickle:A''],
                  log := [JobNoLongerExists ''A'']\<rparr>)"
  using event_without_execution_record
      [of "demo_event EVENT_JOB_EXECUTED ''A''"
          "empty_world\<lparr>jobs := [demo_row ''A'' (Some 5) ''pickle:A'']\<rparr>" 100]
    event_without_execution_record
      [of "demo_event EVENT_JOB_MODIFIED ''A''"
          "empty_world\<lparr>jobs := [demo_row ''A'' (Some 5) ''pickle:A'']\<rparr>" 100]
  by (simp add: demo_defs)

text \<open>
  C2 as stated fails for ADDED: job \<open>A\<close> has a job row and no ledger row; handling its
  ADDED event logs nothing and changes the state, the ledger gaining a row for \<open>A\<close>.
\<close>

theorem added_event_creates_missing_execution_record:
  "executions (empty_world\<lparr>jobs := [demo_row ''A'' (Some 5) ''pickle:A'']\<rparr>) = [] \<and>
   map ex_job (executions (snd (dispatch_event 100 (demo_event EVENT_JOB_ADDED ''A'')
       (empty_world\<lparr>jobs := [demo_row ''A'' (Some 5) ''pickle:A'']\<rparr>)))) = [''A''] \<and>
   log (snd (dispatch_event 100 (demo_event EVENT_JOB_ADDED ''A'')
       (empty_world\<lparr>jobs := [demo_row ''A'' (Some 5) ''pickle:A'']\<rparr>))) = []"
  by (simp add: demo_defs dispatch_event_def handle_added_job_event_def objects_get_def
      create_execution_def Let_def)

section \<open>The scans: get_due_jobs, get_next_run_time, get_all_jobs\<close>

text \<open>
  What the loop of \<^verbatim>\<open>_get_jobs\<close> computes: the jobs of the blobs that load, in the
  order of the rows; the ids of the others; one log record for each of the others.
\<close>

lemma restore_loop_eq:
  "restore_loop loads sts js failed lg =
     (js @ List.map_filter (\<lambda>p. loads (snd p)) sts,
      failed \<union> fst ` {p \<in> set sts. loads (snd p) = None},
      lg @ map (\<lambda>p. UnableToRestore (fst p)) (filter (\<lambda>p. loads (snd p) = None) sts))"
proof (induction sts arbitrary: js failed lg)
  case Nil
  then show ?case by simp
next
  case (Cons p sts)
  obtain i b where p: "p = (i, b)" by (cases p)
  show ?case
  proof (cases "loads b")
    case None
    then have "{q \<in> set (p # sts). loads (snd q) = None} =
        insert (i, b) {q \<in> set sts. loads (snd q) = None}"
      using p by auto
    with None p Cons.IH show ?thesis
      by (simp add: reconstitute_job_def)
  next
    case (Some j)
    then have "{q \<in> set (p # sts). loads (snd q) = None} =
        {q \<in> set sts. loads (snd q) = None}"
      using p by auto
    with Some p Cons.IH show ?thesis
      by (simp add: reconstitute_job_def)
  qed
qed

lemma map_filter_map:
  "List.map_filter f (map g xs) = List.map_filter (\<lambda>x. f (g x)) xs"
  by (induction xs) (simp_all split: option.split)

lemma get_jobs_eq:
  fixes loads :: loads and flt w
  defines "sel \<equiv> order_by_next_run_time (filter flt (jobs w))"
  defines "bad \<equiv> dj_id ` {r \<in> set (jobs w). flt r \<and> loads (dj_job_state r) = None}"
  shows "get_jobs loads flt w =
     (List.map_filter (\<lambda>r. loads (dj_job_state r)) sel,
      w\<lparr>jobs := filter (\<lambda>r. dj_id r \<notin> bad) (jobs w),
        log := log w @
               map (\<lambda>r. UnableToRestore (dj_id r))
                 (filter (\<lambda>r. loads (dj_job_state r) = None) sel) @
               (if bad = {} then [] else [RemovingFailedJobs bad])\<rparr>)"
proof -
  let ?sts = "map (\<lambda>r. (dj_id r, dj_job_state r)) sel"
  have set_sel: "set sel = {r \<in> set (jobs w). flt r}"
    by (auto simp: sel_def order_by_next_run_time_def)
  have "{p \<in> set ?sts. loads (snd p) = None} =
      (\<lambda>r. (dj_id r, dj_job_state r)) ` {r \<in> set (jobs w). flt r \<and> loads (dj_job_state r) = None}"
    by (auto simp: set_sel)
  then have failed: "fst ` {p \<in> set ?sts. loads (snd p) = None} = bad"
    by (simp only: bad_def image_image fst_conv)
  have lg: "map (\<lambda>p. UnableToRestore (fst p)) (filter (\<lambda>p. loads (snd p) = None) ?sts) =
        map (\<lambda>r. UnableToRestore (dj_id r)) (filter (\<lambda>r. loads (dj_job_state r) = None) sel)"
    by (simp add: filter_map comp_def)
  have loop: "restore_loop loads ?sts [] {} [] =
      (List.map_filter (\<lambda>r. loads (dj_job_state r)) sel, bad,
       map (\<lambda>r. UnableToRestore (dj_id r)) (filter (\<lambda>r. loads (dj_job_state r) = None) sel))"
    unfolding restore_loop_eq failed lg map_filter_map by simp
  show ?thesis
  proof (cases "bad = {}")
    case True
    then show ?thesis
      unfolding get_jobs_def Let_def sel_def [symmetric] loop
      by (simp add: log_append_def)
  next
    case False
    then show ?thesis
      unfolding get_jobs_def Let_def sel_def [symmetric] loop
      by (simp add: log_append_def)
  qed
qed


lemma get_jobs_tables [simp]:
  "executions (snd (get_jobs loads flt w)) = executions w"
  "next_execution_id (snd (get_jobs loads flt w)) = next_execution_id w"
  by (simp_all add: get_jobs_eq)

lemma map_filter_Some:
  "map Some (List.map_filter f xs) = map f (filter (\<lambda>x. f x \<noteq> None) xs)"
  by (induction xs) (auto split: option.split)

lemma mset_map_filter:
  "mset (List.map_filter f xs) = image_mset (the \<circ> f) (filter_mset (\<lambda>x. f x \<noteq> None) (mset xs))"
  by (simp add: List.map_filter_def)

lemma next_run_time__lte_iff:
  "next_run_time__lte dt r = (\<exists>t. dj_next_run_time r = Some t \<and> t \<le> dt)"
  by (simp add: next_run_time__lte_def split: option.split)

lemma get_due_jobs_eq:
  "get_due_jobs loads now w =
     (Inr (fst (get_jobs loads (next_run_time__lte now) w)),
      snd (get_jobs loads (next_run_time__lte now) w))"
  by (simp add: get_due_jobs_def get_django_internal_datetime_def split_beta)

lemma get_all_jobs_eq:
  "get_all_jobs loads w =
     (Inr (fix_paused_jobs_sorting (fst (get_jobs loads (\<lambda>r. True) w))),
      snd (get_jobs loads (\<lambda>r. True) w))"
  by (simp add: get_all_jobs_def split_beta)

text \<open>
  C6, as the code has it. \<^verbatim>\<open>get_due_jobs(now)\<close> raises nothing and returns the jobs of
  exactly the rows whose \<^verbatim>\<open>next_run_time\<close> is set and at most \<open>now\<close> and whose blob
  loads, each row once, in ascending order of the rows' \<^verbatim>\<open>next_run_time\<close>.
\<close>

theorem get_due_jobs_sorted_decodable:
  "\<exists>rs js.
     fst (get_due_jobs loads now w) = Inr js \<and>
     map (\<lambda>r. loads (dj_job_state r)) rs = map Some js \<and>
     mset rs =
       filter_mset
         (\<lambda>r. (\<exists>t. dj_next_run_time r = Some t \<and> t \<le> now) \<and> loads (dj_job_state r) \<noteq> None)
         (mset (jobs w)) \<and>
     sorted (map dj_next_run_time rs)"
proof -
  let ?sel = "order_by_next_run_time (filter (next_run_time__lte now) (jobs w))"
  let ?rs = "filter (\<lambda>r. loads (dj_job_state r) \<noteq> None) ?sel"
  let ?js = "List.map_filter (\<lambda>r. loads (dj_job_state r)) ?sel"
  have "fst (get_due_jobs loads now w) = Inr ?js"
    by (simp add: get_due_jobs_eq get_jobs_eq)
  moreover have "map (\<lambda>r. loads (dj_job_state r)) ?rs = map Some ?js"
    by (simp add: map_filter_Some)
  moreover have "mset ?rs =
      filter_mset
        (\<lambda>r. (\<exists>t. dj_next_run_time r = Some t \<and> t \<le> now) \<and> loads (dj_job_state r) \<noteq> None)
        (mset (jobs w))"
    by (simp add: order_by_next_run_time_def filter_filter_mset next_run_time__lte_iff
        cong: filter_mset_cong)
  moreover have "sorted (map dj_next_run_time ?rs)"
    by (simp add: order_by_next_run_time_def sorted_filter)
  ultimately show ?thesis by blast
qed

text \<open>
  C6 as stated fails on a due row whose blob does not load: row \<open>X\<close> has
  \<^verbatim>\<open>next_run_time\<close> 5, the scan at time 10 returns no job.
\<close>

theorem get_due_jobs_drops_undecodable_row:
  "dj_next_run_time (demo_row ''X'' (Some 5) ''garbage'') = Some 5 \<and>
   jobs (empty_world\<lparr>jobs := [demo_row ''X'' (Some 5) ''garbage'']\<rparr>) =
     [demo_row ''X'' (Some 5) ''garbage''] \<and>
   fst (get_due_jobs demo_loads 10
          (empty_world\<lparr>jobs := [demo_row ''X'' (Some 5) ''garbage'']\<rparr>)) = Inr []"
  by (simp add: demo_defs get_due_jobs_def get_jobs_def order_by_next_run_time_def
      next_run_time__lte_def get_django_internal_datetime_def reconstitute_job_def
      log_append_def Let_def)

text \<open>
  C7. \<^verbatim>\<open>get_next_run_time\<close> raises nothing, leaves the store as it is, and returns the
  least \<^verbatim>\<open>next_run_time\<close> that a row holds, or \<^verbatim>\<open>None\<close> when no row holds one.
\<close>

theorem get_next_run_time_is_minimum:
  "get_next_run_time w =
     (Inr (if {t. \<exists>r \<in> set (jobs w). dj_next_run_time r = Some t} = {} then None
           else Some (Min {t. \<exists>r \<in> set (jobs w). dj_next_run_time r = Some t})),
      w)"
proof -
  let ?ts = "{t. \<exists>r \<in> set (jobs w). dj_next_run_time r = Some t}"
  let ?rs = "filter next_run_time__isnull_False (jobs w)"
  have fin: "finite ?ts"
  proof -
    have "?ts \<subseteq> the ` dj_next_run_time ` set (jobs w)" by force
    then show ?thesis by (rule finite_subset) simp
  qed
  show ?thesis
  proof (cases "sort_key dj_next_run_time ?rs")
    case Nil
    then have "?rs = []"
      by (metis length_sort length_0_conv)
    then have "?ts = {}"
      by (auto simp: filter_empty_conv next_run_time__isnull_False_def)
    with Nil show ?thesis
      by (simp add: get_next_run_time_def earliest_def order_by_next_run_time_def)
  next
    case (Cons r rest)
    have srt: "sorted (map dj_next_run_time (r # rest))"
      using sorted_sort_key [of dj_next_run_time ?rs] Cons by simp
    have set_eq: "set (r # rest) = set ?rs"
      using set_sort [of dj_next_run_time ?rs] Cons by simp
    then have "r \<in> set ?rs" by auto
    then obtain t where t: "dj_next_run_time r = Some t" and r: "r \<in> set (jobs w)"
      by (auto simp: next_run_time__isnull_False_def)
    have "t \<le> t'" if "t' \<in> ?ts" for t'
    proof -
      from that obtain r' where r': "r' \<in> set (jobs w)" "dj_next_run_time r' = Some t'" by auto
      then have "r' \<in> set (r # rest)"
        by (simp only: set_eq) (simp add: next_run_time__isnull_False_def)
      with srt have "dj_next_run_time r \<le> dj_next_run_time r'" by auto
      with t r' show ?thesis by simp
    qed
    moreover from t r have "t \<in> ?ts" by auto
    ultimately have "Min ?ts = t" using fin by (intro Min_eqI) auto
    moreover from \<open>t \<in> ?ts\<close> have "?ts \<noteq> {}" by auto
    ultimately show ?thesis using Cons t
      by (simp add: get_next_run_time_def earliest_def order_by_next_run_time_def
          get_apscheduler_datetime_def)
  qed
qed

section \<open>Rows that fail to load\<close>

lemmas scan_defs =
  get_all_jobs_def get_due_jobs_def get_jobs_def order_by_next_run_time_def
  next_run_time__lte_def get_django_internal_datetime_def reconstitute_job_def
  log_append_def fix_paused_jobs_sorting_def lookup_job_def objects_get_def Let_def

lemma swap_nonempty:
  "(if ds \<noteq> [] \<and> ts \<noteq> [] then ds @ ts else ts @ ds) = ds @ ts"
  by auto

lemma fix_paused_jobs_sorting_eq:
  "fix_paused_jobs_sorting js =
     dropWhile (\<lambda>j. job_next_run_time j = None) js @
     takeWhile (\<lambda>j. job_next_run_time j = None) js"
proof -
  let ?d = "dropWhile (\<lambda>j. job_next_run_time j = None) js"
  let ?t = "takeWhile (\<lambda>j. job_next_run_time j = None) js"
  have id: "?t @ ?d = js" by simp
  have "fix_paused_jobs_sorting js = (if ?d \<noteq> [] \<and> ?t \<noteq> [] then ?d @ ?t else ?t @ ?d)"
    by (simp only: fix_paused_jobs_sorting_def Let_def id)
  then show ?thesis by (simp only: swap_nonempty)
qed

lemma mset_fix_paused_jobs_sorting:
  "mset (fix_paused_jobs_sorting js) = mset js"
proof -
  let ?P = "\<lambda>j. job_next_run_time j = None"
  have "mset js = mset (takeWhile ?P js @ dropWhile ?P js)" by simp
  also have "\<dots> = mset (takeWhile ?P js) + mset (dropWhile ?P js)" by (rule mset_append)
  also have "\<dots> = mset (dropWhile ?P js @ takeWhile ?P js)"
    by (simp only: mset_append add.commute)
  finally show ?thesis by (simp only: fix_paused_jobs_sorting_eq)
qed

lemma mset_map_filter_order:
  "mset (List.map_filter f (order_by_next_run_time xs)) = mset (List.map_filter f xs)"
  by (simp add: mset_map_filter order_by_next_run_time_def)

lemma get_jobs_quarantine:
  assumes "r \<in> set (jobs w)" and "flt r" and "loads (dj_job_state r) = None"
  shows "UnableToRestore (dj_id r)
           \<in> set (drop (length (log w)) (log (snd (get_jobs loads flt w))))"
    and "dj_id r \<notin> set (map dj_id (jobs (snd (get_jobs loads flt w))))"
proof -
  have "r \<in> set (filter (\<lambda>x. loads (dj_job_state x) = None)
                    (order_by_next_run_time (filter flt (jobs w))))"
    using assms by (simp add: order_by_next_run_time_def)
  then have "UnableToRestore (dj_id r)
      \<in> (\<lambda>x. UnableToRestore (dj_id x)) `
          set (filter (\<lambda>x. loads (dj_job_state x) = None)
                 (order_by_next_run_time (filter flt (jobs w))))"
    by (rule imageI)
  then show "UnableToRestore (dj_id r)
           \<in> set (drop (length (log w)) (log (snd (get_jobs loads flt w))))"
    by (simp add: get_jobs_eq)
  from assms
  have "dj_id r \<in> dj_id ` {x \<in> set (jobs w). flt x \<and> loads (dj_job_state x) = None}"
    by blast
  then show "dj_id r \<notin> set (map dj_id (jobs (snd (get_jobs loads flt w))))"
    by (auto simp: get_jobs_eq)
qed

text \<open>
  C3, as the code has it. Let \<open>r\<close> be a stored row whose blob fails to load. A
  \<^verbatim>\<open>get_all_jobs\<close> scan raises nothing; what it returns are the jobs of the rows that
  load (so none for \<open>r\<close>); it logs the failure with the id of \<open>r\<close>; it deletes the row,
  and \<^verbatim>\<open>lookup_job\<close> of the id then returns \<^verbatim>\<open>None\<close>. A \<^verbatim>\<open>get_due_jobs(now)\<close>
  scan does the same when it selects \<open>r\<close>, that is when the \<^verbatim>\<open>next_run_time\<close> of
  \<open>r\<close> is set and at most \<open>now\<close>.
\<close>

theorem scan_quarantines_undecodable_record:
  assumes "r \<in> set (jobs w)" and "loads (dj_job_state r) = None"
  shows
    "(\<exists>js. fst (get_all_jobs loads w) = Inr js \<and>
           mset js = mset (List.map_filter (\<lambda>x. loads (dj_job_state x)) (jobs w))) \<and>
     UnableToRestore (dj_id r)
       \<in> set (drop (length (log w)) (log (snd (get_all_jobs loads w)))) \<and>
     dj_id r \<notin> set (map dj_id (jobs (snd (get_all_jobs loads w)))) \<and>
     lookup_job loads (dj_id r) (snd (get_all_jobs loads w)) =
       (Inr None, snd (get_all_jobs loads w)) \<and>
     ((\<exists>t. dj_next_run_time r = Some t \<and> t \<le> now) \<longrightarrow>
        (\<exists>js. fst (get_due_jobs loads now w) = Inr js \<and>
              mset js =
                mset (List.map_filter (\<lambda>x. loads (dj_job_state x))
                        (filter (\<lambda>x. \<exists>t. dj_next_run_time x = Some t \<and> t \<le> now) (jobs w)))) \<and>
        UnableToRestore (dj_id r)
          \<in> set (drop (length (log w)) (log (snd (get_due_jobs loads now w)))) \<and>
        dj_id r \<notin> set (map dj_id (jobs (snd (get_due_jobs loads now w)))) \<and>
        lookup_job loads (dj_id r) (snd (get_due_jobs loads now w)) =
          (Inr None, snd (get_due_jobs loads now w)))"
proof -
  have lookup: "lookup_job loads (dj_id r) w' = (Inr None, w')"
    if "dj_id r \<notin> set (map dj_id (jobs w'))" for w'
    using that objects_get_absent [of "dj_id r" dj_id "jobs w'"]
    by (simp add: lookup_job_def)
  have all: "fst (get_all_jobs loads w) =
      Inr (fix_paused_jobs_sorting
             (List.map_filter (\<lambda>x. loads (dj_job_state x)) (order_by_next_run_time (jobs w))))"
    by (simp add: get_all_jobs_eq get_jobs_eq)
  have a1: "\<exists>js. fst (get_all_jobs loads w) = Inr js \<and>
           mset js = mset (List.map_filter (\<lambda>x. loads (dj_job_state x)) (jobs w))"
    by (simp add: all mset_map_filter_order mset_fix_paused_jobs_sorting)
  note q = get_jobs_quarantine
    [where flt = "\<lambda>r. True" and loads = loads and r = r and w = w, OF assms(1) TrueI assms(2)]
  have a2: "UnableToRestore (dj_id r)
       \<in> set (drop (length (log w)) (log (snd (get_all_jobs loads w))))"
    using q(1) by (simp add: get_all_jobs_eq)
  have a3: "dj_id r \<notin> set (map dj_id (jobs (snd (get_all_jobs loads w))))"
    using q(2) by (simp add: get_all_jobs_eq)
  have due: "(\<exists>js. fst (get_due_jobs loads now w) = Inr js \<and>
              mset js =
                mset (List.map_filter (\<lambda>x. loads (dj_job_state x))
                        (filter (\<lambda>x. \<exists>t. dj_next_run_time x = Some t \<and> t \<le> now) (jobs w)))) \<and>
        UnableToRestore (dj_id r)
          \<in> set (drop (length (log w)) (log (snd (get_due_jobs loads now w)))) \<and>
        dj_id r \<notin> set (map dj_id (jobs (snd (get_due_jobs loads now w)))) \<and>
        lookup_job loads (dj_id r) (snd (get_due_jobs loads now w)) =
          (Inr None, snd (get_due_jobs loads now w))"
    if "\<exists>t. dj_next_run_time r = Some t \<and> t \<le> now"
  proof -
    from that have flt: "next_run_time__lte now r" by (simp add: next_run_time__lte_iff)
    note qd = get_jobs_quarantine
      [where flt = "next_run_time__lte now" and loads = loads and r = r and w = w,
       OF assms(1) flt assms(2)]
    have f: "filter (next_run_time__lte now) (jobs w) =
        filter (\<lambda>x. \<exists>t. dj_next_run_time x = Some t \<and> t \<le> now) (jobs w)"
      by (simp add: next_run_time__lte_iff cong: filter_cong)
    have "fst (get_due_jobs loads now w) =
        Inr (List.map_filter (\<lambda>x. loads (dj_job_state x))
               (order_by_next_run_time (filter (next_run_time__lte now) (jobs w))))"
      by (simp add: get_due_jobs_eq get_jobs_eq)
    then have d1: "\<exists>js. fst (get_due_jobs loads now w) = Inr js \<and>
              mset js =
                mset (List.map_filter (\<lambda>x. loads (dj_job_state x))
                        (filter (\<lambda>x. \<exists>t. dj_next_run_time x = Some t \<and> t \<le> now) (jobs w)))"
      by (simp add: mset_map_filter_order f)
    have d2: "UnableToRestore (dj_id r)
          \<in> set (drop (length (log w)) (log (snd (get_due_jobs loads now w))))"
      using qd(1) by (simp add: get_due_jobs_eq)
    have d3: "dj_id r \<notin> set (map dj_id (jobs (snd (get_due_jobs loads now w))))"
      using qd(2) by (simp add: get_due_jobs_eq)
    from d1 d2 d3 lookup [OF d3] show ?thesis by blast
  qed
  from a1 a2 a3 lookup [OF a3] due show ?thesis by blast
qed

theorem scan_quarantines_undecodable_record_witness:
  "demo_row ''X'' (Some 4) ''garbage''
     \<in> set (jobs (empty_world\<lparr>jobs := [demo_row ''A'' (Some 5) ''pickle:A'',
                                      demo_row ''X'' (Some 4) ''garbage'']\<rparr>)) \<and>
   demo_loads (dj_job_state (demo_row ''X'' (Some 4) ''garbage'')) = None \<and>
   get_all_jobs demo_loads
       (empty_world\<lparr>jobs := [demo_row ''A'' (Some 5) ''pickle:A'',
                              demo_row ''X'' (Some 4) ''garbage'']\<rparr>) =
     (Inr [demo_job ''A'' (Some 5)],
      empty_world\<lparr>jobs := [demo_row ''A'' (Some 5) ''pickle:A''],
                  log := [UnableToRestore ''X'', RemovingFailedJobs {''X''}]\<rparr>) \<and>
   get_due_jobs demo_loads 10
       (empty_world\<lparr>jobs := [demo_row ''A'' (Some 5) ''pickle:A'',
                              demo_row ''X'' (Some 4) ''garbage'']\<rparr>) =
     (Inr [demo_job ''A'' (Some 5)],
      empty_world\<lparr>jobs := [demo_row ''A'' (Some 5) ''pickle:A''],
                  log := [UnableToRestore ''X'', RemovingFailedJobs {''X''}]\<rparr>) \<and>
   lookup_job demo_loads ''X''
       (snd (get_all_jobs demo_loads
          (empty_world\<lparr>jobs := [demo_row ''A'' (Some 5) ''pickle:A'',
                                 demo_row ''X'' (Some 4) ''garbage'']\<rparr>))) =
     (Inr None,
      empty_world\<lparr>jobs := [demo_row ''A'' (Some 5) ''pickle:A''],
                  log := [UnableToRestore ''X'', RemovingFailedJobs {''X''}]\<rparr>)"
  using scan_quarantines_undecodable_record
    [of "demo_row ''X'' (Some 4) ''garbage''"
        "empty_world\<lparr>jobs := [demo_row ''A'' (Some 5) ''pickle:A'',
                               demo_row ''X'' (Some 4) ''garbage'']\<rparr>"
        demo_loads 10]
  by (simp add: demo_defs scan_defs)

text \<open>
  C3 as stated fails for \<^verbatim>\<open>get_due_jobs\<close> on a corrupt row that is not due: row \<open>X\<close>
  is paused, the scan at time 10 logs nothing and leaves the row in the store, and
  \<^verbatim>\<open>lookup_job\<close> of \<open>X\<close> afterwards raises instead of returning \<^verbatim>\<open>None\<close>.
\<close>

theorem get_due_jobs_keeps_undecodable_row_not_due:
  "demo_loads (dj_job_state (demo_row ''X'' None ''garbage'')) = None \<and>
   get_due_jobs demo_loads 10 (empty_world\<lparr>jobs := [demo_row ''X'' None ''garbage'']\<rparr>) =
     (Inr [], empty_world\<lparr>jobs := [demo_row ''X'' None ''garbage'']\<rparr>) \<and>
   lookup_job demo_loads ''X''
       (snd (get_due_jobs demo_loads 10
               (empty_world\<lparr>jobs := [demo_row ''X'' None ''garbage'']\<rparr>))) =
     (Inl RestoreError, empty_world\<lparr>jobs := [demo_row ''X'' None ''garbage'']\<rparr>)"
  by (simp add: demo_defs scan_defs)

section \<open>get_all_jobs: paused jobs last\<close>

lemma dropWhile_None_sorted:
  fixes ks :: "'a::linorder option list"
  shows "sorted ks \<Longrightarrow> k \<in> set (dropWhile (\<lambda>x. x = None) ks) \<Longrightarrow> k \<noteq> None"
proof (induction ks)
  case Nil
  then show ?case by simp
next
  case (Cons a ks)
  show ?case
  proof (cases a)
    case None
    with Cons show ?thesis by simp
  next
    case (Some v)
    with Cons.prems have "k = a \<or> (k \<in> set ks \<and> a \<le> k)" by auto
    with Some show ?thesis by (cases k) auto
  qed
qed

lemma map_filter_next_run_time:
  assumes "list_all (next_run_time_agrees loads) xs"
  shows "map job_next_run_time (List.map_filter (\<lambda>r. loads (dj_job_state r)) xs) =
           map dj_next_run_time (filter (\<lambda>r. loads (dj_job_state r) \<noteq> None) xs)"
  using assms
  by (induction xs) (auto simp: next_run_time_agrees_def split: option.splits)

text \<open>The operations of the store keep the rows in agreement with their blobs.\<close>

lemma add_job_agrees:
  assumes "list_all (next_run_time_agrees loads) (jobs w)"
    and "\<And>j'. loads (dumps j) = Some j' \<Longrightarrow> job_next_run_time j' = job_next_run_time j"
  shows "list_all (next_run_time_agrees loads) (jobs (snd (add_job dumps j w)))"
  using assms
  by (auto simp: add_job_def Let_def next_run_time_agrees_def
      get_django_internal_datetime_def split: option.splits)

lemma update_job_agrees:
  assumes "list_all (next_run_time_agrees loads) (jobs w)"
    and "\<And>j'. loads (dumps j) = Some j' \<Longrightarrow> job_next_run_time j' = job_next_run_time j"
  shows "list_all (next_run_time_agrees loads) (jobs (snd (update_job dumps j w)))"
proof (cases "objects_get (\<lambda>r. dj_id r = job_id j) (jobs w)")
  case (Got r)
  have "next_run_time_agrees loads
      (r\<lparr>dj_next_run_time := get_django_internal_datetime (job_next_run_time j),
         dj_job_state := dumps j\<rparr>)"
    using assms(2)
    by (auto simp: next_run_time_agrees_def get_django_internal_datetime_def
        split: option.splits)
  with assms(1) Got show ?thesis
    by (auto simp: update_job_def save_job_def list_all_iff)
qed (use assms in \<open>simp_all add: update_job_def\<close>)

lemma remove_job_agrees:
  "list_all (next_run_time_agrees loads) (jobs w) \<Longrightarrow>
   list_all (next_run_time_agrees loads) (jobs (snd (remove_job i w)))"
  by (cases "objects_get (\<lambda>r. dj_id r = i) (jobs w)")
     (simp_all add: remove_job_def list_all_iff)

lemma get_jobs_agrees:
  "list_all (next_run_time_agrees loads) (jobs w) \<Longrightarrow>
   list_all (next_run_time_agrees loads) (jobs (snd (get_jobs loads' flt w)))"
  by (simp add: get_jobs_eq list_all_iff)

text \<open>
  C8, as the code has it. In a store where every row that loads carries the
  \<^verbatim>\<open>next_run_time\<close> of its job (as \<^verbatim>\<open>add_job\<close> and \<^verbatim>\<open>update_job\<close> write both),
  \<^verbatim>\<open>get_all_jobs\<close> raises nothing and returns the jobs of all rows that load, each
  once: first the jobs with a next run time, in ascending order of it, then the paused
  ones.
\<close>

theorem get_all_jobs_paused_last:
  assumes "list_all (next_run_time_agrees loads) (jobs w)"
  shows "\<exists>scheduled paused.
           fst (get_all_jobs loads w) = Inr (scheduled @ paused) \<and>
           mset (scheduled @ paused) =
             mset (List.map_filter (\<lambda>r. loads (dj_job_state r)) (jobs w)) \<and>
           list_all (\<lambda>j. job_next_run_time j \<noteq> None) scheduled \<and>
           sorted (map job_next_run_time scheduled) \<and>
           list_all (\<lambda>j. job_next_run_time j = None) paused"
proof -
  let ?f = "\<lambda>r. loads (dj_job_state r)"
  let ?sel = "order_by_next_run_time (jobs w)"
  let ?js = "List.map_filter ?f ?sel"
  let ?P = "\<lambda>j. job_next_run_time j = None"
  have "list_all (next_run_time_agrees loads) ?sel"
    using assms by (simp add: list_all_iff order_by_next_run_time_def)
  then have keys: "map job_next_run_time ?js =
      map dj_next_run_time (filter (\<lambda>r. ?f r \<noteq> None) ?sel)"
    by (rule map_filter_next_run_time)
  have srt: "sorted (map job_next_run_time ?js)"
    by (simp only: keys) (simp add: order_by_next_run_time_def sorted_filter)
  have drop: "map job_next_run_time (dropWhile ?P ?js) =
      dropWhile (\<lambda>x. x = None) (map job_next_run_time ?js)"
    by (simp add: dropWhile_map comp_def)
  have res: "fst (get_all_jobs loads w) = Inr (dropWhile ?P ?js @ takeWhile ?P ?js)"
    by (simp add: get_all_jobs_eq get_jobs_eq fix_paused_jobs_sorting_eq)
  have "mset (dropWhile ?P ?js @ takeWhile ?P ?js) = mset ?js"
    using mset_fix_paused_jobs_sorting [of ?js] by (simp only: fix_paused_jobs_sorting_eq)
  then have ms: "mset (dropWhile ?P ?js @ takeWhile ?P ?js) = mset (List.map_filter ?f (jobs w))"
    by (simp only: mset_map_filter_order)
  have sched: "list_all (\<lambda>j. job_next_run_time j \<noteq> None) (dropWhile ?P ?js)"
  proof -
    have "job_next_run_time j \<noteq> None" if "j \<in> set (dropWhile ?P ?js)" for j
    proof -
      from that have "job_next_run_time j \<in> set (map job_next_run_time (dropWhile ?P ?js))"
        by simp
      then have "job_next_run_time j \<in> set (dropWhile (\<lambda>x. x = None) (map job_next_run_time ?js))"
        by (simp only: drop)
      with srt show ?thesis by (rule dropWhile_None_sorted)
    qed
    then show ?thesis by (simp add: list_all_iff)
  qed
  have srt_d: "sorted (map job_next_run_time (dropWhile ?P ?js))"
    using srt by (simp only: drop sorted_dropWhile)
  have paused: "list_all ?P (takeWhile ?P ?js)"
    by (auto simp: list_all_iff dest: set_takeWhileD)
  from res ms sched srt_d paused show ?thesis by blast
qed

theorem get_all_jobs_paused_last_witness:
  "list_all (next_run_time_agrees demo_loads)
     (jobs (empty_world\<lparr>jobs := [demo_row ''B'' None ''pickle:B'',
                                 demo_row ''A'' (Some 5) ''pickle:A'',
                                 demo_row ''C'' (Some 3) ''pickle:C'']\<rparr>)) \<and>
   fst (get_all_jobs demo_loads
          (empty_world\<lparr>jobs := [demo_row ''B'' None ''pickle:B'',
                                 demo_row ''A'' (Some 5) ''pickle:A'',
                                 demo_row ''C'' (Some 3) ''pickle:C'']\<rparr>)) =
     Inr [demo_job ''C'' (Some 3), demo_job ''A'' (Some 5), demo_job ''B'' None]"
  using get_all_jobs_paused_last
    [of demo_loads "empty_world\<lparr>jobs := [demo_row ''B'' None ''pickle:B'',
                                 demo_row ''A'' (Some 5) ''pickle:A'',
                                 demo_row ''C'' (Some 3) ''pickle:C'']\<rparr>"]
  by (simp add: demo_defs scan_defs next_run_time_agrees_def)

text \<open>
  C8 as stated fails on a row whose blob does not load: of three rows two jobs are
  returned.
\<close>

theorem get_all_jobs_drops_undecodable_row:
  "length (jobs (empty_world\<lparr>jobs := [demo_row ''A'' (Some 5) ''pickle:A'',
                                       demo_row ''X'' (Some 4) ''garbage'',
                                       demo_row ''B'' None ''pickle:B'']\<rparr>)) = 3 \<and>
   fst (get_all_jobs demo_loads
          (empty_world\<lparr>jobs := [demo_row ''A'' (Some 5) ''pickle:A'',
                                 demo_row ''X'' (Some 4) ''garbage'',
                                 demo_row ''B'' None ''pickle:B'']\<rparr>)) =
     Inr [demo_job ''A'' (Some 5), demo_job ''B'' None]"
  by (simp add: demo_defs scan_defs)

end
